theory Spec2Isabelle
  imports Main
begin

section \<open>Class strings\<close>

text \<open>
  Class names are ASCII strings. \<open>is_space\<close> is the regular expression class \<open>\s\<close>
  restricted to ASCII: space, tab, line feed, vertical tab, form feed, carriage return.
\<close>

definition is_space :: "char \<Rightarrow> bool" where
  "is_space c =
     (c = CHR '' '' \<or> c = CHR 0x09 \<or> c = CHR 0x0A \<or> c = CHR 0x0B \<or> c = CHR 0x0C \<or> c = CHR 0x0D)"

text \<open>
  \<open>split_acc w s\<close> cuts \<open>s\<close> at runs of white space; \<open>w\<close> is the word read so far.
  \<open>class_tokens\<close> is the class list of a \<open>className\<close> string (what the DOM's
  \<open>classList\<close> holds).
\<close>

fun split_acc :: "string \<Rightarrow> string \<Rightarrow> string list" where
  "split_acc w [] = (if w = [] then [] else [w])"
| "split_acc w (c # cs) =
     (if is_space c then (if w = [] then [] else [w]) @ split_acc [] cs
      else split_acc (w @ [c]) cs)"

definition class_tokens :: "string \<Rightarrow> string list" where
  "class_tokens s = split_acc [] s"

text \<open>
  \<open>classList.trim().split(/\s+/)\<close>: JavaScript's \<open>split\<close> returns the one-element
  array holding the empty string when the trimmed string is empty.
\<close>

definition split_classes :: "string \<Rightarrow> string list" where
  "split_classes classList = (case class_tokens classList of [] \<Rightarrow> [[]] | ts \<Rightarrow> ts)"

section \<open>The clsx library\<close>

text \<open>
  The values \<open>clsx\<close> receives in this repository: \<open>undefined\<close>, \<open>null\<close>, booleans,
  strings, arrays, objects with boolean values (\<open>CDict\<close>, the own enumerable
  properties in enumeration order) and built-in functions or objects without enumerable
  properties (\<open>COpaque\<close>, by name). Numbers do not occur.
\<close>

datatype class_value =
    CUndefined
  | CNull
  | CBool bool
  | CStr string
  | CArr "class_value list"
  | CDict "(string \<times> bool) list"
  | COpaque string

fun truthy :: "class_value \<Rightarrow> bool" where
  "truthy CUndefined = False"
| "truthy CNull = False"
| "truthy (CBool b) = b"
| "truthy (CStr s) = (s \<noteq> [])"
| "truthy (CArr xs) = True"
| "truthy (CDict kvs) = True"
| "truthy (COpaque n) = True"

text \<open>\<open>str && (str += ' '); str += x\<close>\<close>

definition append_class :: "string \<Rightarrow> string \<Rightarrow> string" where
  "append_class str x = (if str \<noteq> [] then str @ '' '' else str) @ x"

fun toVal :: "class_value \<Rightarrow> string" where
  "toVal (CStr s) = s"
| "toVal (CArr xs) =
     foldl (\<lambda>str x.
       if truthy x then (let y = toVal x in if y \<noteq> [] then append_class str y else str)
       else str) [] xs"
| "toVal (CDict kvs) = foldl (\<lambda>str (k, v). if v then append_class str k else str) [] kvs"
| "toVal _ = []"

text \<open>\<open>clsx(...args)\<close>: the loop over \<open>arguments\<close>.\<close>

definition clsx :: "class_value list \<Rightarrow> string" where
  "clsx args =
     foldl (\<lambda>str tmp.
       if truthy tmp then (let x = toVal tmp in if x \<noteq> [] then append_class str x else str)
       else str) [] args"

section \<open>The tailwind-merge library\<close>

text \<open>
  tailwind-merge is configured by its class groups. For one class name the configured
  instance computes either nothing (the name is no Tailwind class, or is external) or
  the class id (sorted modifiers, important flag and class group id) with the ids the
  class overrides (the same modifiers with each conflicting class group). \<open>class_info\<close>
  is that function; every instance of the library is one \<open>class_info\<close>.
\<close>

type_synonym class_info = "string \<Rightarrow> (string \<times> string list) option"

text \<open>\<open>result = originalClassName + (result.length > 0 ? ' ' + result : result)\<close>\<close>

definition prepend_class :: "string \<Rightarrow> string \<Rightarrow> string" where
  "prepend_class originalClassName result =
     originalClassName @ (if result \<noteq> [] then '' '' @ result else result)"

text \<open>
  One iteration of the loop of \<open>mergeClassList\<close>, on the pair of
  \<open>classGroupsInConflict\<close> and \<open>result\<close>.
\<close>

fun merge_step :: "class_info \<Rightarrow> string \<Rightarrow> string list \<times> string \<Rightarrow> string list \<times> string" where
  "merge_step info originalClassName (classGroupsInConflict, result) =
     (case info originalClassName of
        None \<Rightarrow> (classGroupsInConflict, prepend_class originalClassName result)
      | Some (classId, conflictIds) \<Rightarrow>
          if classId \<in> set classGroupsInConflict then (classGroupsInConflict, result)
          else (classGroupsInConflict @ classId # conflictIds,
                prepend_class originalClassName result))"

text \<open>The loop runs from the last class name to the first.\<close>

definition mergeClassList :: "class_info \<Rightarrow> string \<Rightarrow> string" where
  "mergeClassList info classList = snd (foldr (merge_step info) (split_classes classList) ([], []))"

text \<open>
  \<open>twMerge\<close> called with one string: \<open>twJoin\<close> of one string is that string, and the
  cache does not change results.
\<close>

definition twMerge :: "class_info \<Rightarrow> string \<Rightarrow> string" where
  "twMerge info classList = mergeClassList info classList"

section \<open>src/lib/utils.js\<close>

text \<open>\<open>cn(...inputs)\<close> hands the array of its arguments to \<open>clsx\<close> as one argument.\<close>

definition cn :: "class_info \<Rightarrow> class_value list \<Rightarrow> string" where
  "cn info inputs = twMerge info (clsx [CArr inputs])"

section \<open>Markup\<close>

text \<open>
  What a component returns: elements with a type (a tag or the name of a component of
  the host framework), their props and their children; strings; and \<open>undefined\<close>,
  which React renders as nothing. An element of a component of this repository is the
  component applied to its props.
\<close>

record blog_sidebar_item =
  item_title :: string
  permalink :: string
  unlisted :: bool
  date :: string

record blog_sidebar =
  sidebar_title :: string
  items :: "blog_sidebar_item list"

datatype prop_value =
    PStr string
  | PStyle "(string \<times> string) list"
  | PRef string
  | PItems "blog_sidebar_item list"
  | PSidebar blog_sidebar
  | PObj "(string \<times> prop_value) list"

datatype node =
    Element string "(string \<times> prop_value) list" "node list"
  | Text string
  | Undefined

text \<open>All nodes of a tree, the root first.\<close>

fun nodes :: "node \<Rightarrow> node list" where
  "nodes (Element type props children) = Element type props children # concat (map nodes children)"
| "nodes n = [n]"

definition is_element :: "string \<Rightarrow> node \<Rightarrow> bool" where
  "is_element type n = (case n of Element t props children \<Rightarrow> t = type | _ \<Rightarrow> False)"

definition elements_of_type :: "string \<Rightarrow> node \<Rightarrow> node list" where
  "elements_of_type type n = filter (is_element type) (nodes n)"

definition children_of :: "node \<Rightarrow> node list" where
  "children_of n = (case n of Element type props children \<Rightarrow> children | _ \<Rightarrow> [])"




text \<open>The class list of an element: its \<open>className\<close> prop, split at white space.\<close>

definition class_list :: "node \<Rightarrow> string list" where
  "class_list n =
     (case n of
        Element type props children \<Rightarrow>
          (case map_of props ''className'' of Some (PStr s) \<Rightarrow> class_tokens s | _ \<Rightarrow> [])
      | _ \<Rightarrow> [])"

text \<open>
  What React puts into the document for a list of children: \<open>undefined\<close> and the empty
  string produce nothing.
\<close>

definition rendered :: "node list \<Rightarrow> node list" where
  "rendered children = filter (\<lambda>n. n \<noteq> Undefined \<and> n \<noteq> Text []) children"

section \<open>Property reads on object literals\<close>

text \<open>
  \<open>object[key]\<close> on an object literal finds the object's own property, or else the
  property of that name which every object inherits from \<open>Object.prototype\<close> (a
  built-in function; for \<open>__proto__\<close> the prototype object itself), or else
  \<open>undefined\<close>.
\<close>

datatype 'a property = Own 'a | Inherited string | Missing

definition object_prototype_keys :: "string list" where
  "object_prototype_keys =
     [''constructor'', ''hasOwnProperty'', ''isPrototypeOf'', ''propertyIsEnumerable'',
      ''toLocaleString'', ''toString'', ''valueOf'', ''__proto__'',
      ''__defineGetter__'', ''__defineSetter__'', ''__lookupGetter__'', ''__lookupSetter__'']"

definition get_property :: "(string \<times> 'a) list \<Rightarrow> string \<Rightarrow> 'a property" where
  "get_property object key =
     (case map_of object key of
        Some v \<Rightarrow> Own v
      | None \<Rightarrow> if key \<in> set object_prototype_keys then Inherited key else Missing)"

text \<open>A string prop that may be omitted, as a class value.\<close>

definition class_of :: "string option \<Rightarrow> class_value" where
  "class_of s = (case s of None \<Rightarrow> CUndefined | Some v \<Rightarrow> CStr v)"

section \<open>src/components/StatusIndicator/index.jsx\<close>

text \<open>
  An entry of \<open>statusConfig\<close>; its field \<open>text\<close> is \<open>text_class\<close> here, \<open>text\<close> being
  a keyword.
\<close>

record status_style =
  color :: string
  text_class :: string

definition statusConfig :: "(string \<times> status_style) list" where
  "statusConfig =
     [(''online'', \<lparr>color = ''bg-green-500'', text_class = ''text-green-600 dark:text-green-400''\<rparr>),
      (''offline'', \<lparr>color = ''bg-gray-400'', text_class = ''text-gray-500 dark:text-gray-400''\<rparr>),
      (''warning'', \<lparr>color = ''bg-yellow-500'', text_class = ''text-yellow-600 dark:text-yellow-400''\<rparr>),
      (''error'', \<lparr>color = ''bg-red-500'', text_class = ''text-red-600 dark:text-red-400''\<rparr>)]"

text \<open>
  \<open>statusConfig[status] || statusConfig.online\<close>: an own or inherited property is an
  object or a function, hence truthy; only \<open>undefined\<close> gives way to the default.
\<close>

definition status_config :: "string \<Rightarrow> status_style property" where
  "status_config status =
     (case get_property statusConfig status of
        Missing \<Rightarrow> get_property statusConfig ''online''
      | found \<Rightarrow> found)"

text \<open>\<open>config.color\<close> and \<open>config.text\<close>: a built-in has neither property.\<close>

definition config_color :: "status_style property \<Rightarrow> class_value" where
  "config_color config = (case config of Own c \<Rightarrow> CStr (color c) | _ \<Rightarrow> CUndefined)"

definition config_text :: "status_style property \<Rightarrow> class_value" where
  "config_text config = (case config of Own c \<Rightarrow> CStr (text_class c) | _ \<Rightarrow> CUndefined)"

text \<open>
  The props \<open>status\<close>, \<open>label\<close> and \<open>className\<close> are strings or omitted (\<open>None\<close>).
  \<open>label && <span>\<close> is the label itself when the label is falsy.
\<close>

definition StatusIndicator :: "class_info \<Rightarrow> string option \<Rightarrow> string option \<Rightarrow> string option \<Rightarrow> node" where
  "StatusIndicator info status_prop label className =
     (let status = (case status_prop of None \<Rightarrow> ''online'' | Some s \<Rightarrow> s);
          config = status_config status
      in Element ''div''
           [(''className'', PStr (cn info [CStr ''flex items-center gap-2'', class_of className]))]
           [Element ''div''
              [(''className'', PStr (cn info [CStr ''w-2 h-2 rounded-full'', config_color config]))] [],
            (case label of
               None \<Rightarrow> Undefined
             | Some l \<Rightarrow>
                 if l = [] then Text []
                 else Element ''span''
                        [(''className'', PStr (cn info [CStr ''text-sm'', config_text config]))]
                        [Text l])])"

text \<open>The dot is the first child of the indicator.\<close>

definition dot :: "node \<Rightarrow> node" where
  "dot n = (case n of Element type props (d # children) \<Rightarrow> d | _ \<Rightarrow> Undefined)"

section \<open>The class-variance-authority library\<close>






section \<open>The Badge component (src/unnamed/part_001, imported as components/ui/badge)\<close>





section \<open>src/components/TechBadge/index.jsx\<close>


section \<open>The TerminalWindow component (src/unnamed/part_002)\<close>


section \<open>src/theme/BlogSidebar/Mobile/index.js\<close>












section \<open>The HomepageFeatures component (src/unnamed/part_003)\<close>







section \<open>src/pages/about.js\<close>





section \<open>Renders\<close>






section \<open>A part of the default configuration of tailwind-merge\<close>

text \<open>
  The default configuration on the class names of the examples below: the font sizes
  form the class group \<open>font-size\<close>, which overrides \<open>leading\<close>, and
  \<open>transition-colors\<close> is of the group \<open>transition\<close>. The other class names of the
  examples conflict with none of these and are left unclassified.
\<close>

definition default_info :: class_info where
  "default_info c =
     (if c \<in> set [''text-xs'', ''text-sm'', ''text-base'', ''text-lg'', ''text-xl'']
      then Some (''font-size'', [''leading''])
      else if c = ''transition-colors'' then Some (''transition'', [])
      else None)"

section \<open>The merge as a list of classes\<close>

text \<open>
  For the proofs: the loop of \<open>mergeClassList\<close> with the classes it keeps as a list
  instead of the string it builds (\<open>keep_step\<close>, \<open>merged_classes\<close>), the string of
  a list of classes (\<open>join_classes\<close>), a class name as \<open>split\<close> returns it
  (\<open>is_word\<close>), and the ids a class claims when it is kept (\<open>overrides\<close>).
\<close>

fun keep_step :: "class_info \<Rightarrow> string \<Rightarrow> string list \<times> string list \<Rightarrow> string list \<times> string list" where
  "keep_step info c (conflicts, kept) =
     (case info c of
        None \<Rightarrow> (conflicts, c # kept)
      | Some (classId, conflictIds) \<Rightarrow>
          if classId \<in> set conflicts then (conflicts, kept)
          else (conflicts @ classId # conflictIds, c # kept))"

definition merged_classes :: "class_info \<Rightarrow> string list \<Rightarrow> string list" where
  "merged_classes info ts = snd (foldr (keep_step info) ts ([], []))"

definition join_classes :: "string list \<Rightarrow> string" where
  "join_classes ts = foldr prepend_class ts []"

definition is_word :: "string \<Rightarrow> bool" where
  "is_word w = (w \<noteq> [] \<and> list_all (\<lambda>c. \<not> is_space c) w)"



section \<open>Lemmas on class strings and the merge\<close>

lemma split_acc_space:
  "is_space c \<Longrightarrow> split_acc w (a @ c # b) = split_acc w a @ split_acc [] b"
  by (induction a arbitrary: w) auto

lemma split_acc_word:
  "list_all (\<lambda>c. \<not> is_space c) t \<Longrightarrow> split_acc w t = (if w @ t = [] then [] else [w @ t])"
  by (induction t arbitrary: w) auto

lemma class_tokens_space:
  "class_tokens (a @ '' '' @ b) = class_tokens a @ class_tokens b"
  by (simp add: class_tokens_def split_acc_space is_space_def)

lemma class_tokens_word: "is_word t \<Longrightarrow> class_tokens t = [t]"
  by (simp add: class_tokens_def split_acc_word is_word_def)

lemma split_acc_words:
  "list_all is_word (split_acc w s) = (w = [] \<or> list_all (\<lambda>c. \<not> is_space c) w)"
  apply (induction s arbitrary: w)
  apply (auto simp: is_word_def)
  done

lemma class_tokens_words: "list_all is_word (class_tokens s)"
  by (simp add: class_tokens_def split_acc_words)

lemma class_tokens_join:
  "list_all is_word ts \<Longrightarrow> class_tokens (join_classes ts) = ts"
proof (induction ts)
  case Nil
  then show ?case by (simp add: join_classes_def class_tokens_def)
next
  case (Cons t ts)
  then have w: "is_word t" and ih: "class_tokens (join_classes ts) = ts" by simp_all
  show ?case
  proof (cases "join_classes ts = []")
    case True
    with ih have "ts = []" by (simp add: class_tokens_def)
    with w show ?thesis by (simp add: join_classes_def prepend_class_def class_tokens_word)
  next
    case False
    then have "join_classes (t # ts) = t @ '' '' @ join_classes ts"
      by (simp add: join_classes_def prepend_class_def)
    with w ih show ?thesis by (simp add: class_tokens_space class_tokens_word del: append.simps)
  qed
qed

lemma merge_step_keep_step:
  "foldr (merge_step info) ts ([], []) =
     (fst (foldr (keep_step info) ts ([], [])), join_classes (snd (foldr (keep_step info) ts ([], []))))"
proof (induction ts)
  case Nil
  show ?case by (simp add: join_classes_def)
next
  case (Cons t ts)
  obtain c k where ck: "foldr (keep_step info) ts ([], []) = (c, k)" by (cases "foldr (keep_step info) ts ([], [])")
  with Cons show ?case by (auto simp: join_classes_def split: option.splits)
qed

lemma mergeClassList_join:
  "mergeClassList info s = join_classes (merged_classes info (split_classes s))"
  by (simp add: mergeClassList_def merged_classes_def merge_step_keep_step)

lemma keep_step_subset:
  "set (snd (foldr (keep_step info) ts (c, k))) \<subseteq> set ts \<union> set k"
proof (induction ts)
  case Nil
  show ?case by simp
next
  case (Cons t ts)
  obtain c' k' where ck: "foldr (keep_step info) ts (c, k) = (c', k')" by (cases "foldr (keep_step info) ts (c, k)")
  with Cons show ?case by (auto split: option.splits)
qed

lemma merged_classes_subset: "set (merged_classes info ts) \<subseteq> set ts"
  using keep_step_subset [of info ts "[]" "[]"] by (simp add: merged_classes_def)

lemma class_tokens_twMerge:
  "class_tokens (twMerge info s) = merged_classes info (class_tokens s)"
proof (cases "class_tokens s")
  case Nil
  then have "split_classes s = [[]]" by (simp add: split_classes_def)
  then have "twMerge info s = []"
    by (simp add: twMerge_def mergeClassList_def prepend_class_def split: option.splits)
  with Nil show ?thesis by (simp add: merged_classes_def class_tokens_def)
next
  case (Cons t ts)
  then have sc: "split_classes s = class_tokens s" by (simp add: split_classes_def)
  have "list_all is_word (merged_classes info (class_tokens s))"
    using class_tokens_words [of s] merged_classes_subset [of info "class_tokens s"]
    by (auto simp: list_all_iff)
  then show ?thesis by (simp add: twMerge_def mergeClassList_join sc class_tokens_join)
qed


lemma keep_step_suffix: "\<exists>pre. snd (foldr (keep_step info) ts (c, k)) = pre @ k"
proof (induction ts)
  case Nil
  show ?case by simp
next
  case (Cons t ts)
  then obtain pre where p: "snd (foldr (keep_step info) ts (c, k)) = pre @ k" by blast
  obtain c' k' where ck: "foldr (keep_step info) ts (c, k) = (c', k')"
    by (cases "foldr (keep_step info) ts (c, k)")
  with p have "k' = pre @ k" by simp
  with ck show ?case by (auto split: option.splits)
qed




lemma merged_classes_last: "ts \<noteq> [] \<Longrightarrow> last ts \<in> set (merged_classes info ts)"
proof -
  assume "ts \<noteq> []"
  then obtain us t where ts: "ts = us @ [t]" by (metis append_butlast_last_id)
  obtain c where st: "keep_step info t ([], []) = (c, [t])"
    by (cases "info t") auto
  from keep_step_suffix [of info us c "[t]"] obtain pre
    where "snd (foldr (keep_step info) us (c, [t])) = pre @ [t]" by blast
  with ts st show ?thesis by (simp add: merged_classes_def)
qed


lemma cn_two: "a \<noteq> [] \<Longrightarrow> b \<noteq> [] \<Longrightarrow> cn info [CStr a, CStr b] = twMerge info (a @ '' '' @ b)"
  by (simp add: cn_def clsx_def append_class_def)

lemma cn_one: "cn info [CStr a, CUndefined] = twMerge info a"
  by (simp add: cn_def clsx_def append_class_def)

lemma class_tokens_cn_two:
  "class_tokens (cn info [CStr a, CStr b]) = merged_classes info (class_tokens a @ class_tokens b)"
proof -
  have e: "clsx [CArr [CStr a, CStr b]] = (if a = [] then b else if b = [] then a else a @ '' '' @ b)"
    by (simp add: clsx_def append_class_def)
  have "class_tokens (clsx [CArr [CStr a, CStr b]]) = class_tokens a @ class_tokens b"
    unfolding e by (simp add: class_tokens_space del: append.simps) (simp add: class_tokens_def)
  then show ?thesis by (simp add: cn_def class_tokens_twMerge)
qed

lemma class_tokens_cn_one:
  "class_tokens (cn info [CStr a, CUndefined]) = merged_classes info (class_tokens a)"
  by (simp add: cn_one class_tokens_twMerge)

section \<open>The class-name merge utility\<close>

lemma clsx_array: "clsx [CArr inputs] = clsx inputs"
  by (simp add: clsx_def append_class_def Let_def)

text \<open>
  C3. For every list of inputs, \<open>cn\<close> returns \<open>twMerge\<close> applied to \<open>clsx\<close> of those
  inputs: \<open>cn\<close> is the composition of \<open>twMerge\<close> after \<open>clsx\<close>, also though the source
  passes the inputs to \<open>clsx\<close> as one array instead of spreading them.
\<close>

theorem cn_is_twMerge_after_clsx:
  "cn info inputs = twMerge info (clsx inputs) \<and> cn info = twMerge info \<circ> clsx"
  by (simp add: cn_def clsx_array fun_eq_iff)




section \<open>StatusIndicator\<close>

lemma tokens_dot_base:
  "class_tokens ''w-2 h-2 rounded-full'' = [''w-2'', ''h-2'', ''rounded-full'']"
  by (simp add: class_tokens_def is_space_def)

lemma status_config_known:
  "status_config ''online'' = Own \<lparr>color = ''bg-green-500'', text_class = ''text-green-600 dark:text-green-400''\<rparr>"
  "status_config ''offline'' = Own \<lparr>color = ''bg-gray-400'', text_class = ''text-gray-500 dark:text-gray-400''\<rparr>"
  "status_config ''warning'' = Own \<lparr>color = ''bg-yellow-500'', text_class = ''text-yellow-600 dark:text-yellow-400''\<rparr>"
  "status_config ''error'' = Own \<lparr>color = ''bg-red-500'', text_class = ''text-red-600 dark:text-red-400''\<rparr>"
  by (simp_all add: status_config_def get_property_def statusConfig_def)

lemma class_list_dot:
  "class_list (dot (StatusIndicator info status label className)) =
     class_tokens (cn info [CStr ''w-2 h-2 rounded-full'',
       config_color (status_config (case status of None \<Rightarrow> ''online'' | Some s \<Rightarrow> s))])"
  by (simp add: StatusIndicator_def dot_def class_list_def Let_def)

lemma dot_color_kept:
  "is_word c \<Longrightarrow> c \<in> set (class_tokens (cn info [CStr ''w-2 h-2 rounded-full'', CStr c]))"
proof -
  assume w: "is_word c"
  have "last ([''w-2'', ''h-2'', ''rounded-full''] @ [c]) \<in> set (merged_classes info ([''w-2'', ''h-2'', ''rounded-full''] @ [c]))"
    by (rule merged_classes_last) simp
  with w show ?thesis
    by (simp add: class_tokens_cn_two tokens_dot_base class_tokens_word)
qed

text \<open>
  C1. For each of the four status values the dot of the indicator has the colour class of
  that status in its class list: \<open>bg-green-500\<close> for online, \<open>bg-gray-400\<close> for offline,
  \<open>bg-yellow-500\<close> for warning and \<open>bg-red-500\<close> for error, whatever the label, the
  \<open>className\<close> and the configuration of tailwind-merge.
\<close>

theorem StatusIndicator_color:
  "''bg-green-500'' \<in> set (class_list (dot (StatusIndicator info (Some ''online'') label className))) \<and>
   ''bg-gray-400'' \<in> set (class_list (dot (StatusIndicator info (Some ''offline'') label className))) \<and>
   ''bg-yellow-500'' \<in> set (class_list (dot (StatusIndicator info (Some ''warning'') label className))) \<and>
   ''bg-red-500'' \<in> set (class_list (dot (StatusIndicator info (Some ''error'') label className)))"
proof -
  have w: "is_word ''bg-green-500''" "is_word ''bg-gray-400''" "is_word ''bg-yellow-500''" "is_word ''bg-red-500''"
    by (simp_all add: is_word_def is_space_def)
  show ?thesis
    using w by (simp add: class_list_dot status_config_known config_color_def dot_color_kept)
qed

text \<open>
  C2 at the status \<open>constructor\<close>, which is none of the four values: the read
  \<open>statusConfig[status]\<close> finds the function every object inherits under that name, the
  default is not taken, and the dot has no colour class, where the dot for \<open>online\<close> has
  \<open>bg-green-500\<close>.
\<close>

theorem StatusIndicator_inherited_status:
  "''bg-green-500'' \<notin> set (class_list (dot (StatusIndicator info (Some ''constructor'') label className))) \<and>
   ''bg-green-500'' \<in> set (class_list (dot (StatusIndicator info (Some ''online'') label className))) \<and>
   StatusIndicator info (Some ''constructor'') label className \<noteq> StatusIndicator info (Some ''online'') label className"
proof -
  have c: "status_config ''constructor'' = Inherited ''constructor''"
    by (simp add: status_config_def get_property_def statusConfig_def object_prototype_keys_def)
  have "set (class_list (dot (StatusIndicator info (Some ''constructor'') label className))) \<subseteq> set [''w-2'', ''h-2'', ''rounded-full'']"
    using merged_classes_subset [of info "[''w-2'', ''h-2'', ''rounded-full'']"]
    by (simp add: class_list_dot c config_color_def class_tokens_cn_one tokens_dot_base)
  then have a: "''bg-green-500'' \<notin> set (class_list (dot (StatusIndicator info (Some ''constructor'') label className)))"
    by auto
  have w: "is_word ''bg-green-500''" by (simp add: is_word_def is_space_def)
  then have b: "''bg-green-500'' \<in> set (class_list (dot (StatusIndicator info (Some ''online'') label className)))"
    by (simp add: class_list_dot status_config_known config_color_def dot_color_kept)
  from a b have "StatusIndicator info (Some ''constructor'') label className \<noteq> StatusIndicator info (Some ''online'') label className"
    by metis
  with a b show ?thesis by simp
qed

text \<open>
  A status that is neither one of the four values nor the name of a property of
  \<open>Object.prototype\<close> is rendered as \<open>online\<close> is.
\<close>

lemma status_config_fallback:
  "status \<notin> set (map fst statusConfig) \<Longrightarrow> status \<notin> set object_prototype_keys \<Longrightarrow>
   status_config status = status_config ''online''"
  by (auto simp: status_config_def get_property_def map_of_eq_None_iff [THEN iffD2] split: option.splits)

lemma StatusIndicator_fallback:
  "status \<notin> set (map fst statusConfig) \<Longrightarrow> status \<notin> set object_prototype_keys \<Longrightarrow>
   StatusIndicator info (Some status) label className =
   StatusIndicator info (Some ''online'') label className"
  by (simp add: StatusIndicator_def status_config_fallback)

text \<open>
  C8. Whatever the status: when the label is omitted or the empty string, the indicator
  renders the dot alone and holds no \<open>span\<close>; when the label is a non-empty string, it
  holds exactly one \<open>span\<close>, whose content is the label.
\<close>

theorem StatusIndicator_label:
  "(label = None \<or> label = Some [] \<longrightarrow>
      rendered (children_of (StatusIndicator info status label className)) =
        [dot (StatusIndicator info status label className)] \<and>
      is_element ''div'' (dot (StatusIndicator info status label className)) \<and>
      elements_of_type ''span'' (StatusIndicator info status label className) = []) \<and>
   (\<forall>l. label = Some l \<and> l \<noteq> [] \<longrightarrow>
      (\<exists>props. elements_of_type ''span'' (StatusIndicator info status label className) =
         [Element ''span'' props [Text l]]))"
  by (auto simp: StatusIndicator_def Let_def rendered_def children_of_def dot_def is_element_def
      elements_of_type_def)

text \<open>
  The theorem at the labels \<open>ACTIVE\<close> and the empty string.
\<close>

theorem StatusIndicator_label_witness:
  "(Some ''ACTIVE'' = Some ''ACTIVE'' \<and> ''ACTIVE'' \<noteq> []) \<and>
   (\<exists>props. elements_of_type ''span'' (StatusIndicator default_info (Some ''online'') (Some ''ACTIVE'') None) =
      [Element ''span'' props [Text ''ACTIVE'']]) \<and>
   (Some [] = Some ([] :: string)) \<and>
   elements_of_type ''span'' (StatusIndicator default_info (Some ''online'') (Some []) None) = []"
  using StatusIndicator_label [of "Some ''ACTIVE''" default_info "Some ''online''" None]
    StatusIndicator_label [of "Some []" default_info "Some ''online''" None]
  by simp

section \<open>Default props\<close>




section \<open>Renders and state\<close>







section \<open>Links of the theme components\<close>



end
